theory Spec2Isabelle
  imports Main "HOL-Library.Multiset"
begin

section \<open>The SpidyMQ connection (lib/connection.js)\<close>

text \<open>
  The class \<^verbatim>\<open>Connection\<close> keeps a connectivity flag and a routing table from channel
  names to notify callbacks. Its methods are modelled as functions from the connection
  to a triple: the error thrown (if any), the connection afterwards, and the trace of the
  calls made to the outside world, in order (requests posted, callbacks invoked).

  Conventions of the embedding:
  \<^item> an argument that JavaScript callers may leave out or pass as \<^verbatim>\<open>null\<close> is an
    \<open>option\<close>; a name is falsy when it is absent or the empty string;
  \<^item> callbacks are opaque values: \<open>'f\<close> for notify functions, \<open>'c\<close> for completion
    callbacks, \<open>'m\<close> for message payloads and contents. An invocation is recorded in the
    trace and the callback is taken to return normally. A callback called in the last
    statement of a method or handler may call the connection again: that is the next
    event of the execution. The one invocation that is not last, a subscriber's callback
    called in place of \<^verbatim>\<open>hasOwnProperty\<close>, is taken not to call the connection;
  \<^item> the routing table \<^verbatim>\<open>_subscribers\<close> is a JavaScript object created by \<^verbatim>\<open>{}\<close>: its own
    properties, in insertion order, and its prototype, which an assignment to the key
    \<^verbatim>\<open>__proto__\<close> replaces. The code tests membership by calling the table's member
    \<^verbatim>\<open>hasOwnProperty\<close>, which is a subscriber's callback once a channel of that name is
    subscribed;
  \<^item> what the code depends on and the repository does not contain is taken as a
    parameter, the record \<open>env\<close>: whether \<^verbatim>\<open>request.post\<close> throws, what a callback returns
    when it is called in place of \<^verbatim>\<open>hasOwnProperty\<close>, and what a function object shows
    to an object that has it as prototype;
  \<^item> \<^verbatim>\<open>request.post(...).on('response', f).on('error', g)\<close>, when it does not throw, only
    registers \<open>f\<close> and \<open>g\<close>: the trace records the request with the handlers registered,
    and the handlers are run later by \<open>on_response\<close> and \<open>on_error\<close>.
\<close>

subsection \<open>Data\<close>

datatype error = Error string | Emitted string | TypeError
  \<comment> \<open>\<open>Error msg\<close> is \<^verbatim>\<open>new Error(msg)\<close> built by this module; \<open>Emitted\<close> is an error
      object of the request library (handed to the \<^verbatim>\<open>error\<close> event, or thrown by
      \<^verbatim>\<open>request.post\<close>); \<open>TypeError\<close> is thrown by the JavaScript runtime.\<close>

datatype 'c done_fn = NoopDone | UserDone 'c

definition or_noop :: "'c option \<Rightarrow> 'c done_fn" where
  \<comment> \<open>\<^verbatim>\<open>done = done || function() {}\<close>\<close>
  "or_noop dn = (case dn of None \<Rightarrow> NoopDone | Some f \<Rightarrow> UserDone f)"

datatype route = Use string | PostRoute string
  \<comment> \<open>\<^verbatim>\<open>router.use(path, bodyParser.json())\<close> and \<^verbatim>\<open>router.post(path, _handleMessage)\<close>\<close>

record config =
  serverUrl :: "string option"
  mountPath :: "string option"
  useBodyParser :: "bool option"

record 'f connection =
  baseUrl :: string
  notifyBaseUrl :: string
  subscribers :: "(string \<times> 'f) list"
  subscribers_proto :: "'f option"
  connected :: bool
  router :: "route list"

text \<open>
  \<open>subscribers\<close> holds the own properties of \<^verbatim>\<open>_subscribers\<close>; \<open>subscribers_proto\<close> is
  \<open>None\<close> while its prototype is \<^verbatim>\<open>Object.prototype\<close> and \<open>Some f\<close> once the prototype
  has been replaced by the function \<open>f\<close>.
\<close>

record 'f env =
  post_throws :: "string \<Rightarrow> error option"
  returns_truthy :: "'f \<Rightarrow> string \<Rightarrow> bool"
  proto_enumerable :: "'f \<Rightarrow> string list"
  proto_read_only :: "'f \<Rightarrow> string \<Rightarrow> bool"
  inherited_call :: "'f option \<Rightarrow> string \<Rightarrow> error option"

text \<open>
  The surroundings of the code:
  \<^item> \<open>post_throws u\<close>: the exception \<^verbatim>\<open>request.post\<close> throws at once for the URL \<open>u\<close>,
    \<open>None\<close> when it returns its emitter;
  \<^item> \<open>returns_truthy f k\<close>: the callback \<open>f\<close>, called with the key \<open>k\<close> as its only
    argument, returns a truthy value;
  \<^item> \<open>proto_enumerable f\<close>: the enumerable property names an object inherits from the
    function \<open>f\<close> (a \<^verbatim>\<open>for ... in\<close> loop visits them after the own keys);
  \<^item> \<open>proto_read_only f k\<close>: an object whose prototype is \<open>f\<close> inherits under \<open>k\<close> a
    member that refuses assignment (for every function: \<^verbatim>\<open>name\<close> and \<^verbatim>\<open>length\<close>); the
    module is in strict mode, so the assignment throws a \<open>TypeError\<close>;
  \<^item> \<open>inherited_call p k\<close>: what calling the member \<open>k\<close> that the table inherits (prototype
    \<open>p\<close>) does: the \<open>TypeError\<close> of a missing or non-callable member, or \<open>None\<close> when a
    built-in method is called and returns.
  A function object is taken not to carry a member named \<^verbatim>\<open>hasOwnProperty\<close> itself.
\<close>

record channel_options =
  otype :: "string option"

datatype 'm body =
    ChannelBody string "string option"    \<comment> \<open>\<^verbatim>\<open>{name, type}\<close>\<close>
  | SubscribeBody string string           \<comment> \<open>\<^verbatim>\<open>{name, notifyUrl}\<close>\<close>
  | UnsubscribeBody string string         \<comment> \<open>\<^verbatim>\<open>{name, notifyUrl}\<close>\<close>
  | MessageBody string 'm                 \<comment> \<open>\<^verbatim>\<open>{channel, content}\<close>\<close>

datatype 'c handlers =
    OnCreate "'c done_fn"
  | OnSubscribe string "'c done_fn"
  | OnUnsubscribe "'c done_fn"
  | OnPublish "'c done_fn"
  \<comment> \<open>the pair of closures registered on a request, with what they capture\<close>

datatype ('f, 'c, 'm) effect =
    Post string "'m body" "'c handlers"
  | Done "'c done_fn" "error option" "bool option"
  | Notify 'f 'm
  | Call 'f string
  \<comment> \<open>\<open>Post\<close>: a request sent, with its handlers; \<open>Done\<close>: a completion callback called
      with \<open>(error, result)\<close>; \<open>Notify\<close>: a subscriber's callback called with a message;
      \<open>Call f k\<close>: the callback \<open>f\<close> called with the key \<open>k\<close>, as \<^verbatim>\<open>hasOwnProperty\<close>\<close>

type_synonym ('f, 'c, 'm) result = "error option \<times> 'f connection \<times> ('f, 'c, 'm) effect list"

record 'm request =
  url :: string
  body :: 'm

record response =
  statusCode :: nat
  end_calls :: nat

subsection \<open>The routing table as a JavaScript object\<close>

definition has_own :: "(string \<times> 'f) list \<Rightarrow> string \<Rightarrow> bool" where
  \<comment> \<open>the built-in \<^verbatim>\<open>Object.prototype.hasOwnProperty\<close>: \<open>k\<close> is an own key\<close>
  "has_own obj k = (map_of obj k \<noteq> None)"

definition call_hasOwnProperty ::
  "'f env \<Rightarrow> (string \<times> 'f) list \<Rightarrow> string \<Rightarrow> bool \<times> ('f, 'c, 'm) effect list" where
  \<comment> \<open>\<^verbatim>\<open>this._subscribers.hasOwnProperty(k)\<close> as the code writes it: the member is looked up
      on the table first, so a callback stored under that name is what gets called\<close>
  "call_hasOwnProperty env obj k =
     (case map_of obj ''hasOwnProperty'' of
        Some f \<Rightarrow> (returns_truthy env f k, [Call f k])
      | None \<Rightarrow> (has_own obj k, []))"

fun set_own :: "string \<Rightarrow> 'f \<Rightarrow> (string \<times> 'f) list \<Rightarrow> (string \<times> 'f) list" where
  \<comment> \<open>an own data property is written: an existing key keeps its place, a new one goes last\<close>
  "set_own k v [] = [(k, v)]"
| "set_own k v (p # ps) = (if fst p = k then (k, v) # ps else p # set_own k v ps)"

definition assign :: "'f env \<Rightarrow> string \<Rightarrow> 'f \<Rightarrow> 'f connection \<Rightarrow> error + 'f connection" where
  \<comment> \<open>\<^verbatim>\<open>this._subscribers[k] = v\<close> for a function \<open>v\<close>: an own key is overwritten; otherwise
      the prototype chain decides: \<^verbatim>\<open>__proto__\<close> is the inherited setter that replaces the
      prototype and stores no key, a read-only inherited member throws, and any other
      key becomes a new own property\<close>
  "assign env k v c =
     (if has_own (subscribers c) k
      then Inr (c\<lparr>subscribers := set_own k v (subscribers c)\<rparr>)
      else if k = ''__proto__'' then Inr (c\<lparr>subscribers_proto := Some v\<rparr>)
      else
        (case subscribers_proto c of
           None \<Rightarrow> Inr (c\<lparr>subscribers := set_own k v (subscribers c)\<rparr>)
         | Some g \<Rightarrow>
             if proto_read_only env g k then Inl TypeError
             else Inr (c\<lparr>subscribers := set_own k v (subscribers c)\<rparr>)))"

definition delete_own :: "string \<Rightarrow> (string \<times> 'f) list \<Rightarrow> (string \<times> 'f) list" where
  \<comment> \<open>\<^verbatim>\<open>delete obj[k]\<close>: removes an own property, and nothing when there is none\<close>
  "delete_own k obj = filter (\<lambda>p. fst p \<noteq> k) obj"

definition inherited_keys :: "'f env \<Rightarrow> 'f connection \<Rightarrow> string list" where
  \<comment> \<open>the enumerable names the table inherits: none from \<^verbatim>\<open>Object.prototype\<close>, those of
      the function once it is the prototype\<close>
  "inherited_keys env c =
     (case subscribers_proto c of None \<Rightarrow> [] | Some g \<Rightarrow> proto_enumerable env g)"

definition for_in_keys :: "'f env \<Rightarrow> 'f connection \<Rightarrow> string list" where
  \<comment> \<open>the keys \<^verbatim>\<open>for (k in this._subscribers)\<close> visits: the own keys, then the inherited
      enumerable names that no own key shadows. The order among the own keys is the
      engine's (integer-like keys first); the loop body here acts on each key
      independently, and no statement below depends on the order, for which the
      insertion order stands.\<close>
  "for_in_keys env c =
     map fst (subscribers c) @
     filter (\<lambda>k. \<not> has_own (subscribers c) k) (inherited_keys env c)"

subsection \<open>Strings\<close>

fun split_on :: "char \<Rightarrow> string \<Rightarrow> string list" where
  \<comment> \<open>\<^verbatim>\<open>s.split(d)\<close> for a one-character separator: never an empty array\<close>
  "split_on d [] = [[]]"
| "split_on d (c # cs) =
     (if c = d then [] # split_on d cs
      else (c # hd (split_on d cs)) # tl (split_on d cs))"

definition pop :: "'a list \<Rightarrow> 'a option" where
  \<comment> \<open>\<^verbatim>\<open>array.pop()\<close>: the last element, \<^verbatim>\<open>undefined\<close> on an empty array\<close>
  "pop xs = (if xs = [] then None else Some (last xs))"

definition falsy :: "string option \<Rightarrow> bool" where
  \<comment> \<open>\<^verbatim>\<open>!s\<close> for a string that may be missing\<close>
  "falsy s = (case s of None \<Rightarrow> True | Some t \<Rightarrow> t = [])"

subsection \<open>Constructor\<close>

definition Connection :: "string \<Rightarrow> config option \<Rightarrow> error + 'f connection" where
  "Connection u cfg =
     (case cfg of
        None \<Rightarrow> Inl (Error ''Cannot create a connection without the proper configuration'')
      | Some cf \<Rightarrow>
          if falsy (serverUrl cf)
          then Inl (Error ''Cannot create a connection without knowing our local server url'')
          else
            let s0 = the (serverUrl cf);
                s = (if last s0 = CHR ''/'' then butlast s0 else s0);
                mp = (if falsy (mountPath cf) then ''/spidymq'' else the (mountPath cf));
                messagePath = mp @ ''/:channel'';
                ubp = (useBodyParser cf \<noteq> Some False)
            in Inr \<lparr> baseUrl = u,
                     notifyBaseUrl = s @ mp,
                     subscribers = [],
                     subscribers_proto = None,
                     connected = False,
                     router = (if ubp then [Use mp] else []) @ [PostRoute messagePath] \<rparr>)"

definition isConnected :: "'f connection \<Rightarrow> bool" where
  "isConnected c = connected c"

subsection \<open>Operations\<close>

definition throw :: "string \<Rightarrow> 'f connection \<Rightarrow> ('f, 'c, 'm) result" where
  \<comment> \<open>\<^verbatim>\<open>throw new Error(msg)\<close> before anything was changed or sent\<close>
  "throw msg c = (Some (Error msg), c, [])"

definition request_post ::
  "'f env \<Rightarrow> string \<Rightarrow> 'm body \<Rightarrow> 'c handlers \<Rightarrow> 'f connection \<Rightarrow>
   ('f, 'c, 'm) effect list \<Rightarrow> ('f, 'c, 'm) result" where
  \<comment> \<open>\<^verbatim>\<open>request.post({url, json, body}).on('response', ..).on('error', ..)\<close> as the last
      statement of a method that has reached the connection \<open>c\<close> with the trace \<open>pre\<close>: an
      exception of \<^verbatim>\<open>request.post\<close> leaves the method, nothing is caught\<close>
  "request_post env u b h c pre =
     (case post_throws env u of
        Some e \<Rightarrow> (Some e, c, pre)
      | None \<Rightarrow> (None, c, pre @ [Post u b h]))"

definition connect :: "'c option \<Rightarrow> 'f connection \<Rightarrow> ('f, 'c, 'm) result" where
  "connect dn c =
     (if connected c then throw ''Connection already established'' c
      else (None, c\<lparr>connected := True\<rparr>, [Done (or_noop dn) None (Some True)]))"

definition createChannel ::
  "'f env \<Rightarrow> string option \<Rightarrow> channel_options option \<Rightarrow> 'c option \<Rightarrow> 'f connection \<Rightarrow>
   ('f, 'c, 'm) result" where
  "createChannel env name opts dn c =
     (let options = (case opts of None \<Rightarrow> \<lparr>otype = None\<rparr> | Some ops \<Rightarrow> ops) in
      if \<not> connected c then throw ''Connection not established'' c
      else if falsy name then throw ''Cannot create a channel without a name'' c
      else request_post env (baseUrl c @ ''/channel'') (ChannelBody (the name) (otype options))
             (OnCreate (or_noop dn)) c [])"

definition subscribeChannel ::
  "'f env \<Rightarrow> string option \<Rightarrow> 'f option \<Rightarrow> 'c option \<Rightarrow> 'f connection \<Rightarrow>
   ('f, 'c, 'm) result" where
  "subscribeChannel env channelName notifyFn dn c =
     (if \<not> connected c then throw ''Connection not established'' c
      else if falsy channelName then throw ''Cannot subscribe to a channel without a name'' c
      else if notifyFn = None then throw ''Cannot subscribe to a channel with a notify callback'' c
      else
        (let (subscribed, pre) = call_hasOwnProperty env (subscribers c) (the channelName) in
         if subscribed then (Some (Error ''Already subscribed to this channel''), c, pre)
         else
           (case assign env (the channelName) (the notifyFn) c of
              Inl e \<Rightarrow> (Some e, c, pre)
            | Inr c1 \<Rightarrow>
                request_post env (baseUrl c @ ''/subscribe'')
                  (SubscribeBody (the channelName) (notifyBaseUrl c @ ''/'' @ the channelName))
                  (OnSubscribe (the channelName) (or_noop dn)) c1 pre)))"

definition unsubscribeChannel ::
  "'f env \<Rightarrow> string option \<Rightarrow> 'c option \<Rightarrow> 'f connection \<Rightarrow> ('f, 'c, 'm) result" where
  "unsubscribeChannel env channelName dn c =
     (if \<not> connected c then throw ''Connection not established'' c
      else if falsy channelName then throw ''Cannot unsubscibe from a channel without a name'' c
      else request_post env (baseUrl c @ ''/unsubscribe'')
             (UnsubscribeBody (the channelName) (notifyBaseUrl c @ ''/'' @ the channelName))
             (OnUnsubscribe (or_noop dn))
             (c\<lparr>subscribers := delete_own (the channelName) (subscribers c)\<rparr>) [])"

definition publishMessage ::
  "'f env \<Rightarrow> string option \<Rightarrow> 'm option \<Rightarrow> 'c option \<Rightarrow> 'f connection \<Rightarrow>
   ('f, 'c, 'm) result" where
  "publishMessage env channelName content dn c =
     (if \<not> connected c then throw ''Connection not established'' c
      else if falsy channelName
      then throw ''Cannot publish a message to a channel without a name'' c
      else if content = None then throw ''Cannot publish null or undefined content'' c
      else request_post env (baseUrl c @ ''/message'')
             (MessageBody (the channelName) (the content)) (OnPublish (or_noop dn)) c [])"

fun unsubscribe_each ::
  "'f env \<Rightarrow> string list \<Rightarrow> 'f connection \<Rightarrow> ('f, 'c, 'm) result" where
  \<comment> \<open>the loop of \<^verbatim>\<open>disconnect\<close>: \<^verbatim>\<open>this.unsubscribeChannel(channelName)\<close> for each key,
      with no completion callback; an exception leaves the loop\<close>
  "unsubscribe_each env [] c = (None, c, [])"
| "unsubscribe_each env (k # ks) c =
     (case unsubscribeChannel env (Some k) None c of
        (Some e, c', fx) \<Rightarrow> (Some e, c', fx)
      | (None, c', fx) \<Rightarrow>
          (case unsubscribe_each env ks c' of (r, c'', fx') \<Rightarrow> (r, c'', fx @ fx')))"

definition disconnect :: "'f env \<Rightarrow> 'c option \<Rightarrow> 'f connection \<Rightarrow> ('f, 'c, 'm) result" where
  "disconnect env dn c =
     (if \<not> connected c then throw ''Connection already disconnected'' c
      else
        (case unsubscribe_each env (for_in_keys env c) c of
           (Some e, c', fx) \<Rightarrow> (Some e, c', fx)
         | (None, c', fx) \<Rightarrow>
             (None, c'\<lparr>connected := False\<rparr>, fx @ [Done (or_noop dn) None (Some True)])))"

subsection \<open>Response handling\<close>

definition handleResponse :: "nat \<Rightarrow> 'c done_fn \<Rightarrow> ('f, 'c, 'm) effect list" where
  \<comment> \<open>\<^verbatim>\<open>_handleResponse(response, done)\<close>, on \<^verbatim>\<open>response.statusCode\<close>\<close>
  "handleResponse status dn =
     (if status = 200 then [Done dn None (Some True)]
      else if status = 304 then [Done dn None (Some False)]
      else if status = 400 then [Done dn (Some (Error ''Bad request'')) None]
      else [Done dn (Some (Error ''Server error'')) None])"

fun on_response :: "'c handlers \<Rightarrow> nat \<Rightarrow> 'f connection \<Rightarrow> ('f, 'c, 'm) result" where
  \<comment> \<open>the \<^verbatim>\<open>'response'\<close> handler each method registers\<close>
  "on_response (OnCreate dn) status c = (None, c, handleResponse status dn)"
| "on_response (OnSubscribe channelName dn) status c =
     (None,
      (if status \<noteq> 200 \<and> status \<noteq> 304
       then c\<lparr>subscribers := delete_own channelName (subscribers c)\<rparr> else c),
      handleResponse status dn)"
| "on_response (OnUnsubscribe dn) status c = (None, c, handleResponse status dn)"
| "on_response (OnPublish dn) status c = (None, c, handleResponse status dn)"

fun on_error :: "'c handlers \<Rightarrow> error \<Rightarrow> 'f connection \<Rightarrow> ('f, 'c, 'm) result" where
  \<comment> \<open>the \<^verbatim>\<open>'error'\<close> handler each method registers\<close>
  "on_error (OnCreate dn) err c = (None, c, [Done dn (Some err) None])"
| "on_error (OnSubscribe channelName dn) err c =
     (None, c\<lparr>subscribers := delete_own channelName (subscribers c)\<rparr>,
      [Done dn (Some (Error ''Unable to subscribe to channel'')) None])"
| "on_error (OnUnsubscribe dn) err c =
     (None, c, [Done dn (Some (Error ''Unable to unsubscribe from channel'')) None])"
| "on_error (OnPublish dn) err c = (None, c, [Done dn (Some err) None])"

subsection \<open>Inbound messages\<close>

definition res_end :: "response \<Rightarrow> response" where
  \<comment> \<open>\<^verbatim>\<open>res.end()\<close>\<close>
  "res_end res = res\<lparr>end_calls := Suc (end_calls res)\<rparr>"

definition channel_of :: "string \<Rightarrow> string" where
  \<comment> \<open>\<^verbatim>\<open>req.url.split('/').pop()\<close>\<close>
  "channel_of u = the (pop (split_on CHR ''/'' u))"

definition call_member ::
  "'f env \<Rightarrow> 'f connection \<Rightarrow> string \<Rightarrow> 'm \<Rightarrow> error option \<times> ('f, 'c, 'm) effect list" where
  \<comment> \<open>\<^verbatim>\<open>this._subscribers[channel](message)\<close>: an own key holds a subscriber's callback;
      otherwise the member is inherited: \<^verbatim>\<open>__proto__\<close> reads the prototype (a function
      once replaced, else an object that cannot be called), any other name is the
      runtime's\<close>
  "call_member env c channel message =
     (case map_of (subscribers c) channel of
        Some f \<Rightarrow> (None, [Notify f message])
      | None \<Rightarrow>
          if channel = ''__proto__''
          then (case subscribers_proto c of
                  Some g \<Rightarrow> (None, [Notify g message])
                | None \<Rightarrow> (Some TypeError, []))
          else (inherited_call env (subscribers_proto c) channel, []))"

definition handleMessage ::
  "'f env \<Rightarrow> 'm request \<Rightarrow> response \<Rightarrow> 'f connection \<Rightarrow>
   error option \<times> response \<times> ('f, 'c, 'm) effect list" where
  \<comment> \<open>\<^verbatim>\<open>_handleMessage(req, res)\<close>: the error thrown (if any), the response afterwards and
      the trace. The first test ends the response and goes on.\<close>
  "handleMessage env req res c =
     (let res1 = (if \<not> connected c then res_end res else res);
          channel = channel_of (url req);
          message = body req;
          (subscribed, pre) = call_hasOwnProperty env (subscribers c) channel
      in if \<not> subscribed then (None, res_end (res1\<lparr>statusCode := 400\<rparr>), pre)
         else (case call_member env c channel message of
                 (thrown, fx) \<Rightarrow> (thrown, res1, pre @ fx)))"

subsection \<open>Executions\<close>

text \<open>
  Everything that can happen to a connection after its construction: a call of a public
  method, the response or the error of a request (any handler, at any time: more than
  the requests really pending, so an invariant of these executions is one of the real
  ones), and an inbound message.
\<close>

datatype ('f, 'c, 'm) event =
    EvConnect "'c option"
  | EvDisconnect "'c option"
  | EvCreateChannel "string option" "channel_options option" "'c option"
  | EvSubscribeChannel "string option" "'f option" "'c option"
  | EvUnsubscribeChannel "string option" "'c option"
  | EvPublishMessage "string option" "'m option" "'c option"
  | EvResponse "'c handlers" nat
  | EvError "'c handlers" error
  | EvMessage "'m request" response

fun perform :: "'f env \<Rightarrow> ('f, 'c, 'm) event \<Rightarrow> 'f connection \<Rightarrow> ('f, 'c, 'm) result" where
  "perform env (EvConnect dn) c = connect dn c"
| "perform env (EvDisconnect dn) c = disconnect env dn c"
| "perform env (EvCreateChannel name opts dn) c = createChannel env name opts dn c"
| "perform env (EvSubscribeChannel name notifyFn dn) c = subscribeChannel env name notifyFn dn c"
| "perform env (EvUnsubscribeChannel name dn) c = unsubscribeChannel env name dn c"
| "perform env (EvPublishMessage name content dn) c = publishMessage env name content dn c"
| "perform env (EvResponse h status) c = on_response h status c"
| "perform env (EvError h err) c = on_error h err c"
| "perform env (EvMessage req res) c =
     (case handleMessage env req res c of (thrown, res', fx) \<Rightarrow> (thrown, c, fx))"

definition after :: "'f env \<Rightarrow> ('f, 'c, 'm) event \<Rightarrow> 'f connection \<Rightarrow> 'f connection" where
  "after env e c = fst (snd (perform env e c))"

fun run :: "'f env \<Rightarrow> ('f, 'c, 'm) event list \<Rightarrow> 'f connection \<Rightarrow> 'f connection" where
  "run env [] c = c"
| "run env (e # es) c = run env es (after env e c)"

subsection \<open>The broker's reply and the outcome a completion callback receives\<close>

datatype reply = Status nat | Failed string
  \<comment> \<open>a response with its status code, or the request library's error event\<close>

definition deliver :: "'c handlers \<Rightarrow> reply \<Rightarrow> 'f connection \<Rightarrow> ('f, 'c, 'm) result" where
  "deliver h r c =
     (case r of Status s \<Rightarrow> on_response h s c | Failed msg \<Rightarrow> on_error h (Emitted msg) c)"

fun done_of :: "'c handlers \<Rightarrow> 'c done_fn" where
  "done_of (OnCreate dn) = dn"
| "done_of (OnSubscribe n dn) = dn"
| "done_of (OnUnsubscribe dn) = dn"
| "done_of (OnPublish dn) = dn"

datatype outcome = Success bool | BadRequestError | BrokerError

definition spec_outcome :: "reply \<Rightarrow> outcome" where
  \<comment> \<open>the table of the specification: 200, 304, 400, anything else or a network error\<close>
  "spec_outcome r =
     (case r of
        Status s \<Rightarrow>
          if s = 200 then Success True
          else if s = 304 then Success False
          else if s = 400 then BadRequestError
          else BrokerError
      | Failed msg \<Rightarrow> BrokerError)"

fun outcome_of :: "error option \<Rightarrow> bool option \<Rightarrow> outcome option" where
  \<comment> \<open>how the arguments \<^verbatim>\<open>(error, result)\<close> of a completion callback read: a result and no
      error is a success; the error built for status 400 is the bad request; every other
      error reports the broker or the transport; anything else is no outcome\<close>
  "outcome_of None (Some b) = Some (Success b)"
| "outcome_of (Some e) None =
     (if e = Error ''Bad request'' then Some BadRequestError else Some BrokerError)"
| "outcome_of None None = None"
| "outcome_of (Some e) (Some b) = None"

definition unsubscribe_post :: "'f connection \<Rightarrow> string \<Rightarrow> ('f, 'c, 'm) effect" where
  \<comment> \<open>the request \<^verbatim>\<open>unsubscribeChannel(k)\<close> posts when called without a callback\<close>
  "unsubscribe_post c k =
     Post (baseUrl c @ ''/unsubscribe'') (UnsubscribeBody k (notifyBaseUrl c @ ''/'' @ k))
       (OnUnsubscribe NoopDone)"

fun broker_directed :: "('f, 'c, 'm) event \<Rightarrow> bool" where
  \<comment> \<open>the calls that post a request to the broker\<close>
  "broker_directed (EvCreateChannel name opts dn) = True"
| "broker_directed (EvSubscribeChannel name notifyFn dn) = True"
| "broker_directed (EvUnsubscribeChannel name dn) = True"
| "broker_directed (EvPublishMessage name content dn) = True"
| "broker_directed e = False"

fun callback_of :: "('f, 'c, 'm) event \<Rightarrow> 'c option" where
  \<comment> \<open>the completion callback a call was given\<close>
  "callback_of (EvConnect dn) = dn"
| "callback_of (EvDisconnect dn) = dn"
| "callback_of (EvCreateChannel name opts dn) = dn"
| "callback_of (EvSubscribeChannel name notifyFn dn) = dn"
| "callback_of (EvUnsubscribeChannel name dn) = dn"
| "callback_of (EvPublishMessage name content dn) = dn"
| "callback_of e = None"

fun is_Call :: "('f, 'c, 'm) effect \<Rightarrow> bool" where
  "is_Call (Call f k) = True"
| "is_Call x = False"

definition failure :: "reply \<Rightarrow> bool" where
  \<comment> \<open>a status that is neither 200 nor 304, or a network error\<close>
  "failure r = (case r of Status s \<Rightarrow> s \<noteq> 200 \<and> s \<noteq> 304 | Failed msg \<Rightarrow> True)"

subsection \<open>Invariants\<close>

definition names_ok :: "'f connection \<Rightarrow> bool" where
  \<comment> \<open>the routing table is an object (one entry per key) and no key is the empty string\<close>
  "names_ok c = (distinct (map fst (subscribers c)) \<and> [] \<notin> fst ` set (subscribers c))"


definition plain_table :: "'f connection \<Rightarrow> bool" where
  \<comment> \<open>the table still behaves as a dictionary: its prototype is untouched and no
      subscriber is stored under \<^verbatim>\<open>hasOwnProperty\<close>\<close>
  "plain_table c =
     (subscribers_proto c = None \<and> map_of (subscribers c) ''hasOwnProperty'' = None)"

definition posts_accepted :: "'f env \<Rightarrow> 'f connection \<Rightarrow> bool" where
  \<comment> \<open>\<^verbatim>\<open>request.post\<close> does not throw for the four URLs of the connection\<close>
  "posts_accepted env c =
     (post_throws env (baseUrl c @ ''/channel'') = None
      \<and> post_throws env (baseUrl c @ ''/subscribe'') = None
      \<and> post_throws env (baseUrl c @ ''/unsubscribe'') = None
      \<and> post_throws env (baseUrl c @ ''/message'') = None)"

subsection \<open>The fixtures of test/connection.js\<close>

definition test_config :: config where
  "test_config = \<lparr> serverUrl = Some ''http://localhost:3001/'', mountPath = None,
                   useBodyParser = None \<rparr>"

definition test_env :: "nat env" where
  \<comment> \<open>the surroundings of the tests: \<^verbatim>\<open>request.post\<close> never throws and the callbacks
      return \<^verbatim>\<open>undefined\<close>; functions with no enumerable property, whose \<^verbatim>\<open>name\<close> and
      \<^verbatim>\<open>length\<close> are read-only; a missing member cannot be called\<close>
  "test_env = \<lparr> post_throws = (\<lambda>u. None),
                returns_truthy = (\<lambda>f k. False),
                proto_enumerable = (\<lambda>f. []),
                proto_read_only = (\<lambda>f k. k = ''name'' \<or> k = ''length''),
                inherited_call = (\<lambda>p k. Some TypeError) \<rparr>"

definition has_scheme :: "string \<Rightarrow> bool" where
  "has_scheme u = (take 7 u = ''http://'' \<or> take 8 u = ''https://'')"

definition strict_env :: "nat env" where
  \<comment> \<open>as \<open>test_env\<close>, with a request library that refuses a URL without scheme:
      \<^verbatim>\<open>request.post\<close> throws at once\<close>
  "strict_env = test_env\<lparr> post_throws :=
      (\<lambda>u. if has_scheme u then None else Some (Emitted ''Invalid URI'')) \<rparr>"

definition fresh_conn :: "nat connection" where
  \<comment> \<open>\<^verbatim>\<open>new Connection('http://localhost:3000/', { serverUrl: 'http://localhost:3001/' })\<close>\<close>
  "fresh_conn = \<lparr> baseUrl = ''http://localhost:3000/'',
                  notifyBaseUrl = ''http://localhost:3001/spidymq'',
                  subscribers = [],
                  subscribers_proto = None,
                  connected = False,
                  router = [Use ''/spidymq'', PostRoute ''/spidymq/:channel''] \<rparr>"

definition connected_conn :: "nat connection" where
  \<comment> \<open>\<open>fresh_conn\<close> after \<^verbatim>\<open>connect()\<close>\<close>
  "connected_conn = fresh_conn\<lparr>connected := True\<rparr>"

definition scenario :: "(nat, nat, string) event list" where
  \<comment> \<open>connect, subscribe to \<^verbatim>\<open>test\<close> with notify function 7 and callback 1, response 200\<close>
  "scenario = [EvConnect None,
               EvSubscribeChannel (Some ''test'') (Some 7) (Some 1),
               EvResponse (OnSubscribe ''test'' (UserDone 1)) 200]"

definition subscribed_conn :: "nat connection" where
  "subscribed_conn = fresh_conn\<lparr>subscribers := [(''test'', 7)], connected := True\<rparr>"

definition scenario2 :: "(nat, nat, string) event list" where
  \<comment> \<open>\<open>scenario\<close>, then subscribe to \<^verbatim>\<open>test2\<close> with notify function 9, response 200\<close>
  "scenario2 = scenario @
     [EvSubscribeChannel (Some ''test2'') (Some 9) (Some 2),
      EvResponse (OnSubscribe ''test2'' (UserDone 2)) 200]"

definition subscribed2_conn :: "nat connection" where
  "subscribed2_conn =
     fresh_conn\<lparr>subscribers := [(''test'', 7), (''test2'', 9)], connected := True\<rparr>"

definition shadow_scenario :: "(nat, nat, string) event list" where
  \<comment> \<open>connect, subscribe to \<^verbatim>\<open>hasOwnProperty\<close> with notify function 5, then to \<^verbatim>\<open>test\<close>
      with notify function 7, both answered with 200\<close>
  "shadow_scenario =
     [EvConnect None,
      EvSubscribeChannel (Some ''hasOwnProperty'') (Some 5) (Some 1),
      EvResponse (OnSubscribe ''hasOwnProperty'' (UserDone 1)) 200,
      EvSubscribeChannel (Some ''test'') (Some 7) (Some 2),
      EvResponse (OnSubscribe ''test'' (UserDone 2)) 200]"

definition shadowed_conn :: "nat connection" where
  "shadowed_conn =
     fresh_conn\<lparr>subscribers := [(''hasOwnProperty'', 5), (''test'', 7)], connected := True\<rparr>"

definition hostport_conn :: "nat connection" where
  \<comment> \<open>\<^verbatim>\<open>new Connection('localhost:3000', { serverUrl: 'http://localhost:3001/' })\<close>\<close>
  "hostport_conn = fresh_conn\<lparr>baseUrl := ''localhost:3000''\<rparr>"

definition test_message :: "string \<Rightarrow> string request" where
  "test_message u = \<lparr> url = u, body = ''yum yum'' \<rparr>"

definition test_res :: response where
  "test_res = \<lparr> statusCode = 0, end_calls = 0 \<rparr>"

section \<open>Properties\<close>

subsection \<open>Strings and the routing table\<close>

lemma split_on_nonempty: "split_on d s \<noteq> []"
  by (induction s) auto

lemma split_on_no_sep: "d \<notin> set s \<Longrightarrow> split_on d s = [s]"
  by (induction s) auto

lemma split_on_sep_tl: "d \<in> set s \<Longrightarrow> tl (split_on d s) \<noteq> []"
  by (induction s) (auto simp: split_on_nonempty)

lemma takeWhile_all: "d \<notin> set xs \<Longrightarrow> takeWhile (\<lambda>x. x \<noteq> d) xs = xs"
  by (induction xs) auto

lemma last_split_on: "last (split_on d s) = rev (takeWhile (\<lambda>x. x \<noteq> d) (rev s))"
proof (induction s)
  case Nil
  show ?case by simp
next
  case (Cons c cs)
  show ?case
  proof (cases "c = d")
    case True
    then show ?thesis using Cons.IH by (simp add: split_on_nonempty takeWhile_append)
  next
    case False
    note neq = this
    show ?thesis
    proof (cases "d \<in> set cs")
      case True
      then have "tl (split_on d cs) \<noteq> []" by (rule split_on_sep_tl)
      then have "last (split_on d (c # cs)) = last (split_on d cs)"
        using neq by (simp add: last_tl split_on_nonempty)
      moreover have "takeWhile (\<lambda>x. x \<noteq> d) (rev cs @ [c]) = takeWhile (\<lambda>x. x \<noteq> d) (rev cs)"
        using True by (intro takeWhile_append1[of d]) auto
      ultimately show ?thesis using Cons.IH by simp
    next
      case False
      then have nin: "d \<notin> set (rev (c # cs))" using neq by simp
      then have "d \<notin> set (c # cs)" by simp
      then have "split_on d (c # cs) = [c # cs]" by (rule split_on_no_sep)
      moreover have "takeWhile (\<lambda>x. x \<noteq> d) (rev (c # cs)) = rev (c # cs)"
        using nin by (rule takeWhile_all)
      moreover have "last [c # cs] = c # cs" by simp
      ultimately show ?thesis by (simp only: rev_rev_ident)
    qed
  qed
qed

lemma channel_of_trailing: "channel_of u = rev (takeWhile (\<lambda>x. x \<noteq> CHR ''/'') (rev u))"
  by (simp add: channel_of_def pop_def split_on_nonempty last_split_on)

lemma map_of_set_own: "map_of (set_own k v obj) k = Some v"
  by (induction obj) auto

lemma map_of_set_own_other: "k' \<noteq> k \<Longrightarrow> map_of (set_own k v obj) k' = map_of obj k'"
  by (induction obj) auto

lemma set_own_keys: "fst ` set (set_own k v obj) = insert k (fst ` set obj)"
  by (induction obj) auto

lemma set_own_new: "map_of obj k = None \<Longrightarrow> set_own k v obj = obj @ [(k, v)]"
  by (induction obj) (auto split: if_splits)

lemma set_own_distinct: "distinct (map fst obj) \<Longrightarrow> distinct (map fst (set_own k v obj))"
proof (induction obj)
  case Nil
  show ?case by simp
next
  case (Cons p ps)
  have "fst ` set (set_own k v ps) = insert k (fst ` set ps)" by (rule set_own_keys)
  then show ?case using Cons by auto
qed

lemma delete_own_absent: "map_of (delete_own k obj) k = None"
  by (induction obj) (auto simp: delete_own_def)

lemma delete_own_other: "k' \<noteq> k \<Longrightarrow> map_of (delete_own k obj) k' = map_of obj k'"
  by (induction obj) (auto simp: delete_own_def)

lemma delete_own_Nil [simp]: "delete_own k [] = []"
  by (simp add: delete_own_def)

lemma filter_delete_own:
  "filter (\<lambda>p. fst p \<notin> set ks) (delete_own k obj) = filter (\<lambda>p. fst p \<notin> set (k # ks)) obj"
  by (induction obj) (auto simp: delete_own_def)

subsection \<open>The loop of disconnect\<close>

lemma unsubscribe_post_subscribers [simp]:
  "unsubscribe_post (c\<lparr>subscribers := s\<rparr>) = unsubscribe_post c"
  by (simp add: unsubscribe_post_def fun_eq_iff)

lemma unsubscribeChannel_Some:
  "unsubscribeChannel env (Some k) dn c =
     (if connected c \<and> k \<noteq> []
      then request_post env (baseUrl c @ ''/unsubscribe'')
             (UnsubscribeBody k (notifyBaseUrl c @ ''/'' @ k)) (OnUnsubscribe (or_noop dn))
             (c\<lparr>subscribers := delete_own k (subscribers c)\<rparr>) []
      else (Some (Error (if connected c then ''Cannot unsubscibe from a channel without a name''
                         else ''Connection not established'')), c, []))"
  by (simp add: unsubscribeChannel_def throw_def falsy_def)

lemma unsubscribe_each_ok:
  "connected c \<Longrightarrow> [] \<notin> set ks \<Longrightarrow> post_throws env (baseUrl c @ ''/unsubscribe'') = None \<Longrightarrow>
   unsubscribe_each env ks c =
     (None, c\<lparr>subscribers := filter (\<lambda>p. fst p \<notin> set ks) (subscribers c)\<rparr>,
      map (unsubscribe_post c) ks)"
proof (induction ks arbitrary: c)
  case Nil
  show ?case by simp
next
  case (Cons k ks)
  have k: "k \<noteq> []" and ks: "[] \<notin> set ks" using Cons.prems(2) by auto
  show ?case
    using Cons.IH[of "c\<lparr>subscribers := delete_own k (subscribers c)\<rparr>"] ks k Cons.prems(1,3)
    by (simp add: unsubscribeChannel_Some request_post_def filter_delete_own
        unsubscribe_post_def or_noop_def)
qed



lemma unsubscribe_each_filter:
  "\<exists>ks'. subscribers (fst (snd (unsubscribe_each env ks c :: ('f, 'c, 'm) result))) =
     filter (\<lambda>p. fst p \<notin> set ks') (subscribers c)"
proof (induction ks arbitrary: c)
  case Nil
  have "subscribers c = filter (\<lambda>p. fst p \<notin> set []) (subscribers c)" by simp
  then show ?case by (metis unsubscribe_each.simps(1) fst_conv snd_conv)
next
  case (Cons k ks)
  let ?c1 = "c\<lparr>subscribers := delete_own k (subscribers c)\<rparr>"
  let ?r = "unsubscribeChannel env (Some k) None c :: ('f, 'c, 'm) result"
  show ?case
  proof (cases "fst ?r")
    case None
    then have r: "?r = (None, ?c1, snd (snd ?r))"
      by (auto simp: unsubscribeChannel_Some request_post_def split: if_splits option.splits)
    from Cons.IH[of ?c1] obtain ks' where
      "subscribers (fst (snd (unsubscribe_each env ks ?c1 :: ('f, 'c, 'm) result))) =
         filter (\<lambda>p. fst p \<notin> set ks') (subscribers ?c1)" by blast
    then have "subscribers (fst (snd (unsubscribe_each env (k # ks) c :: ('f, 'c, 'm) result))) =
         filter (\<lambda>p. fst p \<notin> set (k # ks')) (subscribers c)"
      by (subst unsubscribe_each.simps, subst r) (auto simp: filter_delete_own split: prod.splits)
    then show ?thesis by blast
  next
    case (Some e)
    then have "subscribers (fst (snd ?r)) = filter (\<lambda>p. fst p \<notin> set [k]) (subscribers c)
        \<or> subscribers (fst (snd ?r)) = filter (\<lambda>p. fst p \<notin> set []) (subscribers c)"
      by (auto simp: unsubscribeChannel_Some request_post_def delete_own_def
          split: if_splits option.splits)
    moreover have "fst (snd (unsubscribe_each env (k # ks) c :: ('f, 'c, 'm) result)) = fst (snd ?r)"
      using Some by (auto split: prod.splits)
    ultimately show ?thesis by metis
  qed
qed

subsection \<open>What a call of subscribeChannel can do to the connection\<close>

lemma assign_cases:
  "assign env k v c = Inl TypeError
   \<or> assign env k v c = Inr (c\<lparr>subscribers := set_own k v (subscribers c)\<rparr>)
   \<or> assign env k v c = Inr (c\<lparr>subscribers_proto := Some v\<rparr>)"
  by (simp add: assign_def split: option.splits)

lemma request_post_state [simp]: "fst (snd (request_post env u b h c pre)) = c"
  by (simp add: request_post_def split: option.splits)

lemma subscribeChannel_state:
  "fst (snd (subscribeChannel env name notifyFn dn c :: ('f, 'c, 'm) result)) = c
   \<or> (connected c \<and> \<not> falsy name \<and>
        (fst (snd (subscribeChannel env name notifyFn dn c :: ('f, 'c, 'm) result)) =
            c\<lparr>subscribers := set_own (the name) (the notifyFn) (subscribers c)\<rparr>
         \<or> fst (snd (subscribeChannel env name notifyFn dn c :: ('f, 'c, 'm) result)) =
            c\<lparr>subscribers_proto := notifyFn\<rparr>))"
proof (cases "connected c \<and> \<not> falsy name \<and> notifyFn \<noteq> None")
  case False
  then show ?thesis by (auto simp: subscribeChannel_def throw_def)
next
  case True
  then obtain f where f: "notifyFn = Some f" by auto
  obtain s pre where h: "(call_hasOwnProperty env (subscribers c) (the name)
      :: bool \<times> ('f, 'c, 'm) effect list) = (s, pre)"
    by (cases "call_hasOwnProperty env (subscribers c) (the name)
      :: bool \<times> ('f, 'c, 'm) effect list")
  show ?thesis
  proof (cases s)
    case True
    then show ?thesis using f h \<open>connected c \<and> \<not> falsy name \<and> notifyFn \<noteq> None\<close>
      by (simp add: subscribeChannel_def)
  next
    case False
    then show ?thesis
      using f h \<open>connected c \<and> \<not> falsy name \<and> notifyFn \<noteq> None\<close>
        assign_cases[of env "the name" f c]
      by (auto simp: subscribeChannel_def)
  qed
qed

lemma not_falsy: "\<not> falsy name \<Longrightarrow> the name \<noteq> []"
  by (cases name) (simp_all add: falsy_def)

subsection \<open>Invariants of the executions\<close>

lemma names_ok_filter:
  "names_ok c \<Longrightarrow> subscribers c' = filter P (subscribers c) \<Longrightarrow> names_ok c'"
  by (auto simp: names_ok_def distinct_map_filter)

lemma names_ok_set_own:
  "names_ok c \<Longrightarrow> n \<noteq> [] \<Longrightarrow> names_ok (c\<lparr>subscribers := set_own n f (subscribers c)\<rparr>)"
  by (simp add: names_ok_def set_own_keys set_own_distinct)

lemma names_ok_proto [simp]: "names_ok (c\<lparr>subscribers_proto := p\<rparr>) = names_ok c"
  by (simp add: names_ok_def)

lemma names_ok_after: "names_ok c \<Longrightarrow> names_ok (after env (e :: ('f, 'c, 'm) event) c)"
proof (cases e)
  case (EvConnect dn)
  assume "names_ok c"
  then show ?thesis using EvConnect
    by (simp add: after_def connect_def throw_def names_ok_def)
next
  case (EvDisconnect dn)
  assume ok: "names_ok c"
  obtain ks' where f: "subscribers (fst (snd (unsubscribe_each env (for_in_keys env c) c
        :: ('f, 'c, 'm) result))) =
     filter (\<lambda>p. fst p \<notin> set ks') (subscribers c)"
    using unsubscribe_each_filter by blast
  have "subscribers (after env e c) = subscribers c \<or>
        subscribers (after env e c) = filter (\<lambda>p. fst p \<notin> set ks') (subscribers c)"
    using EvDisconnect f
    by (auto simp: after_def disconnect_def throw_def split: prod.splits option.splits)
  then show ?thesis using ok names_ok_filter[OF ok, of "after env e c"]
    by (auto simp: names_ok_def)
next
  case (EvCreateChannel name opts dn)
  assume "names_ok c"
  then show ?thesis using EvCreateChannel
    by (simp add: after_def createChannel_def throw_def Let_def request_post_def
        split: option.splits)
next
  case (EvSubscribeChannel name notifyFn dn)
  assume ok: "names_ok c"
  show ?thesis
    using subscribeChannel_state[where ?'m = 'm, of env name notifyFn dn c]
      ok EvSubscribeChannel
    by (auto simp: after_def names_ok_set_own not_falsy)
next
  case (EvUnsubscribeChannel name dn)
  assume "names_ok c"
  then show ?thesis using EvUnsubscribeChannel
    by (auto simp: after_def unsubscribeChannel_def throw_def delete_own_def request_post_def
        split: option.splits intro: names_ok_filter)
next
  case (EvPublishMessage name content dn)
  assume "names_ok c"
  then show ?thesis using EvPublishMessage
    by (simp add: after_def publishMessage_def throw_def request_post_def split: option.splits)
next
  case (EvResponse h status)
  assume "names_ok c"
  then show ?thesis using EvResponse
    by (cases h) (auto simp: after_def delete_own_def intro: names_ok_filter)
next
  case (EvError h err)
  assume "names_ok c"
  then show ?thesis using EvError
    by (cases h) (auto simp: after_def delete_own_def intro: names_ok_filter)
next
  case (EvMessage req res)
  assume "names_ok c"
  then show ?thesis using EvMessage by (simp add: after_def split: prod.splits)
qed

lemma names_ok_run: "names_ok c \<Longrightarrow> names_ok (run env evs c)"
  by (induction evs arbitrary: c) (auto intro: names_ok_after)

lemma Connection_Inr:
  "Connection u cfg = Inr c \<Longrightarrow>
   subscribers c = [] \<and> subscribers_proto c = None \<and> \<not> connected c \<and> baseUrl c = u"
  by (auto simp: Connection_def Let_def split: option.splits if_splits)

lemma names_ok_reachable: "Connection u cfg = Inr c0 \<Longrightarrow> names_ok (run env evs c0)"
  by (rule names_ok_run) (auto dest: Connection_Inr simp: names_ok_def)



lemma deliver_outcome:
  "\<exists>err res. snd (snd (deliver h r c :: ('f, 'c, 'm) result)) = [Done (done_of h) err res]
     \<and> outcome_of err res = Some (spec_outcome r)"
  by (cases h; cases r) (simp_all add: deliver_def handleResponse_def spec_outcome_def)

subsection \<open>Fixtures\<close>

lemma fresh_conn_constructed:
  "Connection ''http://localhost:3000/'' (Some test_config) = Inr fresh_conn"
  by (simp add: Connection_def test_config_def fresh_conn_def falsy_def Let_def)

lemma hostport_conn_constructed:
  "Connection ''localhost:3000'' (Some test_config) = Inr hostport_conn"
  by (simp add: Connection_def test_config_def hostport_conn_def fresh_conn_def falsy_def Let_def)

lemma test_env_simps [simp]:
  "post_throws test_env u = None" "returns_truthy test_env f k = False"
  "proto_enumerable test_env f = []"
  by (simp_all add: test_env_def)

lemma fresh_conn_simps [simp]:
  "connected fresh_conn = False" "subscribers fresh_conn = []"
  "subscribers_proto fresh_conn = None"
  "baseUrl fresh_conn = ''http://localhost:3000/''"
  "notifyBaseUrl fresh_conn = ''http://localhost:3001/spidymq''"
  by (simp_all add: fresh_conn_def)

lemma scenario_run: "subscribed_conn = run test_env scenario fresh_conn"
  by (simp add: scenario_def subscribed_conn_def after_def connect_def
      subscribeChannel_def falsy_def call_hasOwnProperty_def has_own_def
      assign_def request_post_def)

lemma scenario2_run: "subscribed2_conn = run test_env scenario2 fresh_conn"
  by (simp add: scenario2_def scenario_def subscribed2_conn_def after_def connect_def
      subscribeChannel_def falsy_def call_hasOwnProperty_def has_own_def
      assign_def request_post_def)

lemma shadow_scenario_run: "shadowed_conn = run test_env shadow_scenario fresh_conn"
  by (simp add: shadow_scenario_def shadowed_conn_def after_def connect_def
      subscribeChannel_def falsy_def call_hasOwnProperty_def has_own_def
      assign_def request_post_def)

lemma subscribed_conn_simps [simp]:
  "connected subscribed_conn" "subscribers subscribed_conn = [(''test'', 7)]"
  "subscribers_proto subscribed_conn = None"
  "baseUrl subscribed_conn = ''http://localhost:3000/''"
  "notifyBaseUrl subscribed_conn = ''http://localhost:3001/spidymq''"
  by (simp_all add: subscribed_conn_def)

lemma subscribed2_conn_simps [simp]:
  "connected subscribed2_conn" "subscribers subscribed2_conn = [(''test'', 7), (''test2'', 9)]"
  "subscribers_proto subscribed2_conn = None"
  "baseUrl subscribed2_conn = ''http://localhost:3000/''"
  "notifyBaseUrl subscribed2_conn = ''http://localhost:3001/spidymq''"
  by (simp_all add: subscribed2_conn_def)

lemma shadowed_conn_simps [simp]:
  "connected shadowed_conn"
  "subscribers shadowed_conn = [(''hasOwnProperty'', 5), (''test'', 7)]"
  "subscribers_proto shadowed_conn = None"
  "baseUrl shadowed_conn = ''http://localhost:3000/''"
  "notifyBaseUrl shadowed_conn = ''http://localhost:3001/spidymq''"
  by (simp_all add: shadowed_conn_def)

section \<open>The claims\<close>

subsection \<open>C1: a message that arrives while disconnected\<close>

lemma handleMessage_disconnected:
  "\<not> connected c \<Longrightarrow> subscribers c = [] \<Longrightarrow>
   handleMessage env req res c = (None, res_end ((res_end res)\<lparr>statusCode := 400\<rparr>), [])"
  by (simp add: handleMessage_def call_hasOwnProperty_def has_own_def)

text \<open>
  Claim C1 says that a message handled while the connection is not connected is ignored:
  the response is ended, nothing else happens, and in particular the status is not set
  to 400. The source ends the response under the comment ``If we aren't connected, ignore
  the message'' but does not return, so the subscription test that follows runs as well.
  On a connection that was constructed and never connected, a message for
  \<^verbatim>\<open>/spidymq/test\<close> ends the response, then sets the status to 400 and ends the response a
  second time, whatever the surroundings.
\<close>

theorem C1_disconnected_message_gets_400:
  "Connection ''http://localhost:3000/'' (Some test_config) = Inr fresh_conn
   \<and> isConnected fresh_conn = False
   \<and> handleMessage env (test_message ''/spidymq/test'') test_res fresh_conn =
       (None, \<lparr> statusCode = 400, end_calls = 2 \<rparr>, ([] :: (nat, nat, string) effect list))"
  by (simp add: fresh_conn_constructed isConnected_def handleMessage_disconnected
      test_message_def test_res_def res_end_def)

subsection \<open>C2: the outcome of a broker-directed operation\<close>

lemma posted_once:
  assumes "broker_directed e" and "perform env e c = (None, c', fx)"
  shows "\<exists>pre u b h. fx = pre @ [Post u b h] \<and> list_all is_Call pre
           \<and> done_of h = or_noop (callback_of e)"
proof (cases e)
  case (EvCreateChannel name opts dn)
  then show ?thesis using assms(2)
    by (auto simp: createChannel_def throw_def Let_def request_post_def
        split: if_splits option.splits)
next
  case (EvSubscribeChannel name notifyFn dn)
  then show ?thesis using assms(2)
    by (auto simp: subscribeChannel_def throw_def request_post_def call_hasOwnProperty_def
        split: if_splits option.splits sum.splits prod.splits)
next
  case (EvUnsubscribeChannel name dn)
  then show ?thesis using assms(2)
    by (auto simp: unsubscribeChannel_def throw_def request_post_def
        split: if_splits option.splits)
next
  case (EvPublishMessage name content dn)
  then show ?thesis using assms(2)
    by (auto simp: publishMessage_def throw_def request_post_def
        split: if_splits option.splits)
qed (use assms(1) in simp_all)

text \<open>
  Claim C2: called while connected with a non-empty name (and content, and a notify
  function for a channel not yet subscribed), with a request library that accepts the
  URL, \<^verbatim>\<open>createChannel\<close>, \<^verbatim>\<open>publishMessage\<close>, \<^verbatim>\<open>unsubscribeChannel\<close> and
  \<^verbatim>\<open>subscribeChannel\<close> throw nothing and post their request with the handlers that hold
  the caller's callback. Whatever handlers a request has and whatever the broker replies,
  in whatever state the connection then is, the handlers invoke the completion callback
  once, with arguments that read as the specification's table says: 200 is success with
  \<open>True\<close>, 304 success with \<open>False\<close>, 400 a bad request, any other status or a network
  error a broker error. And any of the four calls that returns normally, in any state,
  has posted exactly one request, whose handlers hold the caller's callback.
\<close>

theorem C2_response_mapping:
  assumes "connected c" and "n \<noteq> []" and "posts_accepted env c"
  shows "(createChannel env (Some n) opts dn c :: ('f, 'c, 'm) result) =
           (None, c,
            [Post (baseUrl c @ ''/channel'')
               (ChannelBody n (case opts of None \<Rightarrow> None | Some ops \<Rightarrow> otype ops))
               (OnCreate (or_noop dn))])
     \<and> (publishMessage env (Some n) (Some m) dn c :: ('f, 'c, 'm) result) =
           (None, c, [Post (baseUrl c @ ''/message'') (MessageBody n m) (OnPublish (or_noop dn))])
     \<and> (unsubscribeChannel env (Some n) dn c :: ('f, 'c, 'm) result) =
           (None, c\<lparr>subscribers := delete_own n (subscribers c)\<rparr>,
            [Post (baseUrl c @ ''/unsubscribe'') (UnsubscribeBody n (notifyBaseUrl c @ ''/'' @ n))
               (OnUnsubscribe (or_noop dn))])
     \<and> (plain_table c \<and> map_of (subscribers c) n = None \<longrightarrow>
          (\<exists>c1. (subscribeChannel env (Some n) (Some f) dn c :: ('f, 'c, 'm) result) =
             (None, c1,
              [Post (baseUrl c @ ''/subscribe'') (SubscribeBody n (notifyBaseUrl c @ ''/'' @ n))
                 (OnSubscribe n (or_noop dn))])))
     \<and> (\<forall>h r c2. \<exists>err res.
          snd (snd (deliver h r c2 :: ('f, 'c, 'm) result)) = [Done (done_of h) err res]
          \<and> outcome_of err res = Some (spec_outcome r))
     \<and> (\<forall>e c' fx. broker_directed e \<and> perform env e c = (None, c', fx :: ('f, 'c, 'm) effect list) \<longrightarrow>
          (\<exists>pre u b h. fx = pre @ [Post u b h] \<and> list_all is_Call pre
             \<and> done_of h = or_noop (callback_of e)))"
proof (intro conjI allI impI)
  show "(createChannel env (Some n) opts dn c :: ('f, 'c, 'm) result) =
           (None, c,
            [Post (baseUrl c @ ''/channel'')
               (ChannelBody n (case opts of None \<Rightarrow> None | Some ops \<Rightarrow> otype ops))
               (OnCreate (or_noop dn))])"
    using assms
    by (simp add: createChannel_def falsy_def request_post_def posts_accepted_def
        split: option.splits)
  show "(publishMessage env (Some n) (Some m) dn c :: ('f, 'c, 'm) result) =
           (None, c, [Post (baseUrl c @ ''/message'') (MessageBody n m) (OnPublish (or_noop dn))])"
    using assms by (simp add: publishMessage_def falsy_def request_post_def posts_accepted_def)
  show "(unsubscribeChannel env (Some n) dn c :: ('f, 'c, 'm) result) =
           (None, c\<lparr>subscribers := delete_own n (subscribers c)\<rparr>,
            [Post (baseUrl c @ ''/unsubscribe'') (UnsubscribeBody n (notifyBaseUrl c @ ''/'' @ n))
               (OnUnsubscribe (or_noop dn))])"
    using assms by (simp add: unsubscribeChannel_Some request_post_def posts_accepted_def)
next
  assume "plain_table c \<and> map_of (subscribers c) n = None"
  then show "\<exists>c1. (subscribeChannel env (Some n) (Some f) dn c :: ('f, 'c, 'm) result) =
             (None, c1,
              [Post (baseUrl c @ ''/subscribe'') (SubscribeBody n (notifyBaseUrl c @ ''/'' @ n))
                 (OnSubscribe n (or_noop dn))])"
    using assms
    by (simp add: subscribeChannel_def falsy_def call_hasOwnProperty_def has_own_def
        plain_table_def assign_def request_post_def posts_accepted_def)
next
  fix h r and c2 :: "'f connection"
  show "\<exists>err res. snd (snd (deliver h r c2 :: ('f, 'c, 'm) result)) = [Done (done_of h) err res]
          \<and> outcome_of err res = Some (spec_outcome r)"
    by (rule deliver_outcome)
next
  fix e :: "('f, 'c, 'm) event" and c' and fx :: "('f, 'c, 'm) effect list"
  assume "broker_directed e \<and> perform env e c = (None, c', fx)"
  then show "\<exists>pre u b h. fx = pre @ [Post u b h] \<and> list_all is_Call pre
             \<and> done_of h = or_noop (callback_of e)"
    using posted_once by blast
qed

theorem C2_response_mapping_witness:
  "connected subscribed_conn \<and> ''pizza'' \<noteq> [] \<and> posts_accepted test_env subscribed_conn
   \<and> plain_table subscribed_conn \<and> map_of (subscribers subscribed_conn) ''pizza'' = None
   \<and> (createChannel test_env (Some ''pizza'') (Some \<lparr>otype = Some ''round-robin''\<rparr>) (Some 1)
        subscribed_conn :: (nat, nat, string) result) =
       (None, subscribed_conn,
        [Post ''http://localhost:3000//channel'' (ChannelBody ''pizza'' (Some ''round-robin''))
           (OnCreate (UserDone 1))])
   \<and> (publishMessage test_env (Some ''pizza'') (Some ''order'') (Some 1) subscribed_conn
        :: (nat, nat, string) result) =
       (None, subscribed_conn,
        [Post ''http://localhost:3000//message'' (MessageBody ''pizza'' ''order'')
           (OnPublish (UserDone 1))])
   \<and> (unsubscribeChannel test_env (Some ''pizza'') (Some 1) subscribed_conn
        :: (nat, nat, string) result) =
       (None, subscribed_conn,
        [Post ''http://localhost:3000//unsubscribe''
           (UnsubscribeBody ''pizza'' ''http://localhost:3001/spidymq/pizza'')
           (OnUnsubscribe (UserDone 1))])
   \<and> (\<exists>c1. (subscribeChannel test_env (Some ''pizza'') (Some 8) (Some 1) subscribed_conn
        :: (nat, nat, string) result) =
       (None, c1,
        [Post ''http://localhost:3000//subscribe''
           (SubscribeBody ''pizza'' ''http://localhost:3001/spidymq/pizza'')
           (OnSubscribe ''pizza'' (UserDone 1))]))
   \<and> (\<forall>h r c2. \<exists>err res.
        snd (snd (deliver h r c2 :: (nat, nat, string) result)) = [Done (done_of h) err res]
        \<and> outcome_of err res = Some (spec_outcome r))"
proof -
  have h1: "connected subscribed_conn" by simp
  have h2: "''pizza'' \<noteq> []" by simp
  have h3: "posts_accepted test_env subscribed_conn" by (simp add: posts_accepted_def)
  have h4: "plain_table subscribed_conn \<and> map_of (subscribers subscribed_conn) ''pizza'' = None"
    by (simp add: plain_table_def)
  have d: "delete_own ''pizza'' [(''test'', 7::nat)] = [(''test'', 7)]"
    by (simp add: delete_own_def)
  note t = C2_response_mapping[where ?'m = string and ?'c = nat, OF h1 h2 h3,
      of "Some \<lparr>otype = Some ''round-robin''\<rparr>" "Some 1" "''order''" 8]
  have e: "subscribed_conn\<lparr>subscribers := [(''test'', 7)]\<rparr> = subscribed_conn"
    by (simp add: subscribed_conn_def)
  show ?thesis using t h1 h3 h4 by (simp add: or_noop_def d e)
qed

subsection \<open>C3: a subscription is provisional until the broker confirms it\<close>

lemma subscribeChannel_plain:
  assumes "connected c" and "n \<noteq> []" and "n \<noteq> ''__proto__''" and "plain_table c"
    and "map_of (subscribers c) n = None"
    and "post_throws env (baseUrl c @ ''/subscribe'') = None"
  shows "(subscribeChannel env (Some n) (Some f) dn c :: ('f, 'c, 'm) result) =
           (None, c\<lparr>subscribers := subscribers c @ [(n, f)]\<rparr>,
            [Post (baseUrl c @ ''/subscribe'') (SubscribeBody n (notifyBaseUrl c @ ''/'' @ n))
               (OnSubscribe n (or_noop dn))])"
  using assms
  by (simp add: subscribeChannel_def falsy_def call_hasOwnProperty_def has_own_def
      plain_table_def assign_def request_post_def set_own_new)

lemma subscription_rolled_back:
  assumes "failure r"
  shows "\<exists>err. (deliver (OnSubscribe n dn) r c :: ('f, 'c, 'm) result) =
           (None, c\<lparr>subscribers := delete_own n (subscribers c)\<rparr>, [Done dn (Some err) None])"
  using assms by (cases r) (auto simp: failure_def deliver_def handleResponse_def)

text \<open>
  Claim C3 says that \<^verbatim>\<open>subscribeChannel\<close>, called while connected with a non-empty name
  that is not in the routing table and with a notify function, inserts the callback into
  the table before the request completes. The source writes
  \<^verbatim>\<open>this._subscribers[channelName] = notifyFn\<close> on an object created by \<^verbatim>\<open>{}\<close>; for the
  name \<^verbatim>\<open>__proto__\<close> this assignment is the inherited setter, which replaces the table's
  prototype and stores nothing. On the connected test fixture the call returns normally
  and posts its request, the table is still empty, and a message for that channel is
  answered with status 400 and reaches no callback. (For other names, on a table that
  still behaves as a dictionary, the entry is stored and a failure reply removes it:
  \<open>subscribeChannel_plain\<close>, \<open>subscription_rolled_back\<close>.)
\<close>

theorem C3_proto_subscription_not_stored:
  "Connection ''http://localhost:3000/'' (Some test_config) = Inr fresh_conn
   \<and> connected_conn = run test_env [EvConnect None :: (nat, nat, string) event] fresh_conn
   \<and> has_own (subscribers connected_conn) ''__proto__'' = False
   \<and> (subscribeChannel test_env (Some ''__proto__'') (Some 7) (Some 1) connected_conn
        :: (nat, nat, string) result) =
       (None, connected_conn\<lparr>subscribers_proto := Some 7\<rparr>,
        [Post ''http://localhost:3000//subscribe''
           (SubscribeBody ''__proto__'' ''http://localhost:3001/spidymq/__proto__'')
           (OnSubscribe ''__proto__'' (UserDone 1))])
   \<and> subscribers (connected_conn\<lparr>subscribers_proto := Some 7\<rparr>) = []
   \<and> handleMessage test_env (test_message ''/spidymq/__proto__'') test_res
        (connected_conn\<lparr>subscribers_proto := Some 7\<rparr>) =
       (None, \<lparr> statusCode = 400, end_calls = 1 \<rparr>, ([] :: (nat, nat, string) effect list))"
  by (simp add: fresh_conn_constructed connected_conn_def after_def connect_def
      subscribeChannel_def falsy_def call_hasOwnProperty_def has_own_def assign_def
      request_post_def or_noop_def handleMessage_def channel_of_trailing test_message_def
      test_res_def res_end_def)

subsection \<open>C4: an unsubscription is never rolled back\<close>

lemma unsubscribe_handlers_keep_state:
  "fst (snd (deliver (OnUnsubscribe dn) r c :: ('f, 'c, 'm) result)) = c"
  by (cases r) (simp_all add: deliver_def)

lemma unsubscribed_silence_plain:
  assumes "connected c" and "plain_table c" and "channel_of (url req) = n"
  shows "handleMessage env req res (c\<lparr>subscribers := delete_own n (subscribers c)\<rparr>) =
           (None, res\<lparr>statusCode := 400, end_calls := Suc (end_calls res)\<rparr>,
            [] :: ('f, 'c, 'm) effect list)"
proof -
  have "map_of (delete_own n (subscribers c)) ''hasOwnProperty'' = None"
    using assms(2) by (cases "n = ''hasOwnProperty''")
      (simp_all add: plain_table_def delete_own_absent delete_own_other)
  then show ?thesis using assms(1,3)
    by (simp add: handleMessage_def call_hasOwnProperty_def has_own_def delete_own_absent
        res_end_def)
qed

text \<open>
  Claim C4 says that after \<^verbatim>\<open>unsubscribeChannel\<close> the name is absent from the routing
  table whatever the broker replies, and that consequently a message addressed to it
  invokes no callback. The removal and the absence of any rollback hold of the source
  (\<open>unsubscribeChannel_Some\<close>, \<open>unsubscribe_handlers_keep_state\<close>). The consequence does not:
  \<^verbatim>\<open>_handleMessage\<close> tests membership with \<^verbatim>\<open>this._subscribers.hasOwnProperty(channel)\<close>,
  which is the callback of the channel \<^verbatim>\<open>hasOwnProperty\<close> when that channel is subscribed.
  After subscriptions to \<^verbatim>\<open>hasOwnProperty\<close> (callback 5) and \<^verbatim>\<open>test\<close> (callback 7),
  \<^verbatim>\<open>test\<close> is unsubscribed and the broker answers 200; a message for \<^verbatim>\<open>/spidymq/test\<close>
  then calls callback 5 with the channel name before it is answered with 400. (On a table
  that still behaves as a dictionary no callback is invoked: \<open>unsubscribed_silence_plain\<close>.)
\<close>

theorem C4_message_after_unsubscribe_calls_callback:
  "Connection ''http://localhost:3000/'' (Some test_config) = Inr fresh_conn
   \<and> shadowed_conn = run test_env shadow_scenario fresh_conn
   \<and> (unsubscribeChannel test_env (Some ''test'') (Some 3) shadowed_conn
        :: (nat, nat, string) result) =
       (None, shadowed_conn\<lparr>subscribers := [(''hasOwnProperty'', 5)]\<rparr>,
        [Post ''http://localhost:3000//unsubscribe''
           (UnsubscribeBody ''test'' ''http://localhost:3001/spidymq/test'')
           (OnUnsubscribe (UserDone 3))])
   \<and> (deliver (OnUnsubscribe (UserDone 3)) (Status 200)
         (shadowed_conn\<lparr>subscribers := [(''hasOwnProperty'', 5)]\<rparr>)
        :: (nat, nat, string) result) =
       (None, shadowed_conn\<lparr>subscribers := [(''hasOwnProperty'', 5)]\<rparr>,
        [Done (UserDone 3) None (Some True)])
   \<and> has_own (subscribers (shadowed_conn\<lparr>subscribers := [(''hasOwnProperty'', 5)]\<rparr>)) ''test''
       = False
   \<and> handleMessage test_env (test_message ''/spidymq/test'') test_res
        (shadowed_conn\<lparr>subscribers := [(''hasOwnProperty'', 5)]\<rparr>) =
       (None, \<lparr> statusCode = 400, end_calls = 1 \<rparr>,
        ([Call 5 ''test''] :: (nat, nat, string) effect list))"
  by (simp add: fresh_conn_constructed shadow_scenario_run[symmetric]
      unsubscribeChannel_Some request_post_def delete_own_def or_noop_def deliver_def
      handleResponse_def has_own_def handleMessage_def call_hasOwnProperty_def
      channel_of_trailing test_message_def test_res_def res_end_def)

subsection \<open>C5: validation errors are thrown before anything happens\<close>

lemma validation_errors:
  "(connected c \<longrightarrow>
      (connect dn c :: ('f, 'c, 'm) result) =
        (Some (Error ''Connection already established''), c, []))
   \<and> (\<not> connected c \<longrightarrow>
      (disconnect env dn c :: ('f, 'c, 'm) result) =
        (Some (Error ''Connection already disconnected''), c, [])
      \<and> (createChannel env name opts dn c :: ('f, 'c, 'm) result) =
        (Some (Error ''Connection not established''), c, [])
      \<and> (subscribeChannel env name notifyFn dn c :: ('f, 'c, 'm) result) =
        (Some (Error ''Connection not established''), c, [])
      \<and> (unsubscribeChannel env name dn c :: ('f, 'c, 'm) result) =
        (Some (Error ''Connection not established''), c, [])
      \<and> (publishMessage env name content dn c :: ('f, 'c, 'm) result) =
        (Some (Error ''Connection not established''), c, []))
   \<and> (connected c \<and> falsy name \<longrightarrow>
      (createChannel env name opts dn c :: ('f, 'c, 'm) result) =
        (Some (Error ''Cannot create a channel without a name''), c, [])
      \<and> (subscribeChannel env name notifyFn dn c :: ('f, 'c, 'm) result) =
        (Some (Error ''Cannot subscribe to a channel without a name''), c, [])
      \<and> (unsubscribeChannel env name dn c :: ('f, 'c, 'm) result) =
        (Some (Error ''Cannot unsubscibe from a channel without a name''), c, [])
      \<and> (publishMessage env name content dn c :: ('f, 'c, 'm) result) =
        (Some (Error ''Cannot publish a message to a channel without a name''), c, []))
   \<and> (connected c \<and> \<not> falsy name \<and> notifyFn = None \<longrightarrow>
      (subscribeChannel env name notifyFn dn c :: ('f, 'c, 'm) result) =
        (Some (Error ''Cannot subscribe to a channel with a notify callback''), c, []))
   \<and> (connected c \<and> \<not> falsy name \<and> content = None \<longrightarrow>
      (publishMessage env name content dn c :: ('f, 'c, 'm) result) =
        (Some (Error ''Cannot publish null or undefined content''), c, []))
   \<and> (connected c \<and> \<not> falsy name \<and> notifyFn \<noteq> None \<and> plain_table c
        \<and> has_own (subscribers c) (the name) \<longrightarrow>
      (subscribeChannel env name notifyFn dn c :: ('f, 'c, 'm) result) =
        (Some (Error ''Already subscribed to this channel''), c, []))"
  by (simp add: connect_def disconnect_def createChannel_def subscribeChannel_def
      unsubscribeChannel_def publishMessage_def throw_def Let_def call_hasOwnProperty_def
      plain_table_def)

text \<open>
  Claim C5 says that every validation failure, ``already subscribed'' among them, is
  thrown before any request is sent and leaves the connection as it was. The checks of
  connectivity, name, notify function and content do so in every state
  (\<open>validation_errors\<close>). The check for an existing subscription is the call
  \<^verbatim>\<open>this._subscribers.hasOwnProperty(channelName)\<close>; once the channel \<^verbatim>\<open>hasOwnProperty\<close>
  is subscribed, that call runs the channel's callback and the test takes what it
  returns. With \<^verbatim>\<open>hasOwnProperty\<close> (callback 5) and \<^verbatim>\<open>test\<close> subscribed, subscribing to
  \<^verbatim>\<open>hasOwnProperty\<close> again throws nothing: callback 5 is called with the name, the entry
  is overwritten with the new callback and a second subscribe request is posted.
\<close>

theorem C5_already_subscribed_not_raised:
  "Connection ''http://localhost:3000/'' (Some test_config) = Inr fresh_conn
   \<and> shadowed_conn = run test_env shadow_scenario fresh_conn
   \<and> has_own (subscribers shadowed_conn) ''hasOwnProperty''
   \<and> (subscribeChannel test_env (Some ''hasOwnProperty'') (Some 8) (Some 3) shadowed_conn
        :: (nat, nat, string) result) =
       (None, shadowed_conn\<lparr>subscribers := [(''hasOwnProperty'', 8), (''test'', 7)]\<rparr>,
        [Call 5 ''hasOwnProperty'',
         Post ''http://localhost:3000//subscribe''
           (SubscribeBody ''hasOwnProperty'' ''http://localhost:3001/spidymq/hasOwnProperty'')
           (OnSubscribe ''hasOwnProperty'' (UserDone 3))])"
  by (simp add: fresh_conn_constructed shadow_scenario_run[symmetric] has_own_def
      subscribeChannel_def falsy_def call_hasOwnProperty_def assign_def request_post_def
      or_noop_def)

subsection \<open>C6: disconnect unsubscribes from every channel\<close>

text \<open>
  Claim C6, as stated for every connected connection, does not hold of the source: the
  loop of \<^verbatim>\<open>disconnect\<close> calls \<^verbatim>\<open>unsubscribeChannel\<close>, whose \<^verbatim>\<open>request.post\<close> may throw, and
  nothing catches the exception, so the flag, which is cleared after the loop, stays
  set. With the broker URL \<^verbatim>\<open>localhost:3000\<close> and a request library that refuses a URL
  without scheme, \<^verbatim>\<open>subscribeChannel\<close> stores its entry and throws, and \<^verbatim>\<open>disconnect\<close> then
  deletes the entry, throws the library's error, calls no callback and leaves the
  connection connected.
\<close>

theorem C6_disconnect_throws_counterexample:
  "Connection ''localhost:3000'' (Some test_config) = Inr hostport_conn
   \<and> run strict_env [EvConnect None, EvSubscribeChannel (Some ''test'') (Some 7) (Some 1)
        :: (nat, nat, string) event] hostport_conn =
       hostport_conn\<lparr>subscribers := [(''test'', 7)], connected := True\<rparr>
   \<and> (disconnect strict_env (Some 4)
         (hostport_conn\<lparr>subscribers := [(''test'', 7)], connected := True\<rparr>)
        :: (nat, nat, string) result) =
       (Some (Emitted ''Invalid URI''),
        hostport_conn\<lparr>subscribers := [], connected := True\<rparr>, [])
   \<and> isConnected (hostport_conn\<lparr>subscribers := [], connected := True\<rparr>)"
  by (simp add: hostport_conn_constructed hostport_conn_def strict_env_def test_env_def
      has_scheme_def after_def connect_def subscribeChannel_def falsy_def
      call_hasOwnProperty_def has_own_def assign_def request_post_def disconnect_def
      for_in_keys_def inherited_keys_def unsubscribeChannel_Some delete_own_def
      isConnected_def)

text \<open>
  Claim C6, amended: in every state a connection can reach after its construction in
  which it is connected, the routing table inherits no enumerable name (as it does not
  unless a subscription to \<^verbatim>\<open>__proto__\<close> gave it a prototype that has some) and the
  request library accepts the unsubscribe URL, \<^verbatim>\<open>disconnect\<close> throws nothing and posts one
  unsubscribe request, with no completion callback, for each key of the routing table
  (each channel once, the keys being distinct; the order is the enumeration order of the
  engine), leaves the routing table empty and the flag cleared, and calls its own
  callback last. Afterwards \<^verbatim>\<open>isConnected\<close> is false and no inbound message invokes a
  callback.
\<close>

theorem C6_disconnect_fan_out:
  assumes "Connection u cfg = Inr c0" and "c = run env (evs :: ('f, 'c, 'm) event list) c0"
    and "connected c" and "inherited_keys env c = []"
    and "post_throws env (baseUrl c @ ''/unsubscribe'') = None"
  shows "(\<exists>ks. mset ks = mset (map fst (subscribers c)) \<and>
           (disconnect env dn c :: ('f, 'c, 'm) result) =
             (None, c\<lparr>subscribers := [], connected := False\<rparr>,
              map (unsubscribe_post c) ks @ [Done (or_noop dn) None (Some True)]))
     \<and> distinct (map fst (subscribers c))
     \<and> \<not> isConnected (c\<lparr>subscribers := [], connected := False\<rparr>)
     \<and> (\<forall>req res. snd (snd (handleMessage env req res (c\<lparr>subscribers := [], connected := False\<rparr>)
            :: error option \<times> response \<times> ('f, 'c, 'm) effect list)) = [])"
proof -
  have ok: "names_ok c" using assms(1,2) names_ok_reachable by blast
  have keys: "for_in_keys env c = map fst (subscribers c)"
    using assms(4) by (simp add: for_in_keys_def)
  have ne: "[] \<notin> set (for_in_keys env c)" using ok by (simp add: names_ok_def keys)
  have "filter (\<lambda>p. fst p \<notin> set (for_in_keys env c)) (subscribers c) = []"
    by (simp add: keys)
  then have "(disconnect env dn c :: ('f, 'c, 'm) result) =
      (None, c\<lparr>subscribers := [], connected := False\<rparr>,
       map (unsubscribe_post c) (for_in_keys env c) @ [Done (or_noop dn) None (Some True)])"
    using assms(3) by (simp add: disconnect_def unsubscribe_each_ok[OF assms(3) ne assms(5)])
  then have "\<exists>ks. mset ks = mset (map fst (subscribers c)) \<and>
           (disconnect env dn c :: ('f, 'c, 'm) result) =
             (None, c\<lparr>subscribers := [], connected := False\<rparr>,
              map (unsubscribe_post c) ks @ [Done (or_noop dn) None (Some True)])"
    using keys by metis
  moreover have "distinct (map fst (subscribers c))" using ok by (simp add: names_ok_def)
  moreover have "\<not> isConnected (c\<lparr>subscribers := [], connected := False\<rparr>)"
    by (simp add: isConnected_def)
  moreover have "\<forall>req res. snd (snd (handleMessage env req res
            (c\<lparr>subscribers := [], connected := False\<rparr>)
            :: error option \<times> response \<times> ('f, 'c, 'm) effect list)) = []"
    by (simp add: handleMessage_def call_hasOwnProperty_def has_own_def)
  ultimately show ?thesis by blast
qed

theorem C6_disconnect_fan_out_witness:
  "Connection ''http://localhost:3000/'' (Some test_config) = Inr fresh_conn
   \<and> subscribed2_conn = run test_env scenario2 fresh_conn
   \<and> connected subscribed2_conn
   \<and> inherited_keys test_env subscribed2_conn = []
   \<and> post_throws test_env (baseUrl subscribed2_conn @ ''/unsubscribe'') = None
   \<and> (\<exists>ks. mset ks = mset [''test'', ''test2''] \<and>
        (disconnect test_env (Some 4) subscribed2_conn :: (nat, nat, string) result) =
          (None, fresh_conn,
           map (unsubscribe_post subscribed2_conn) ks @ [Done (UserDone 4) None (Some True)]))
   \<and> (disconnect test_env (Some 4) subscribed2_conn :: (nat, nat, string) result) =
       (None, fresh_conn,
        [Post ''http://localhost:3000//unsubscribe''
           (UnsubscribeBody ''test'' ''http://localhost:3001/spidymq/test'')
           (OnUnsubscribe NoopDone),
         Post ''http://localhost:3000//unsubscribe''
           (UnsubscribeBody ''test2'' ''http://localhost:3001/spidymq/test2'')
           (OnUnsubscribe NoopDone),
         Done (UserDone 4) None (Some True)])
   \<and> isConnected fresh_conn = False
   \<and> snd (snd (handleMessage test_env (test_message ''/spidymq/test'') test_res fresh_conn
        :: error option \<times> response \<times> (nat, nat, string) effect list)) = []
   \<and> snd (snd (handleMessage test_env (test_message ''/spidymq/test2'') test_res fresh_conn
        :: error option \<times> response \<times> (nat, nat, string) effect list)) = []"
proof -
  have h1: "Connection ''http://localhost:3000/'' (Some test_config) = Inr fresh_conn"
    by (rule fresh_conn_constructed)
  have h2: "subscribed2_conn = run test_env scenario2 fresh_conn" by (rule scenario2_run)
  have h3: "connected subscribed2_conn" by simp
  have h4: "inherited_keys test_env subscribed2_conn = []" by (simp add: inherited_keys_def)
  have h5: "post_throws test_env (baseUrl subscribed2_conn @ ''/unsubscribe'') = None" by simp
  have e: "subscribed2_conn\<lparr>subscribers := [], connected := False\<rparr> = fresh_conn"
    by (simp add: subscribed2_conn_def fresh_conn_def)
  note t = C6_disconnect_fan_out[where ?'c = nat, OF h1 h2 h3 h4 h5, of "Some 4"]
  have d: "(disconnect test_env (Some 4) subscribed2_conn :: (nat, nat, string) result) =
       (None, fresh_conn,
        [Post ''http://localhost:3000//unsubscribe''
           (UnsubscribeBody ''test'' ''http://localhost:3001/spidymq/test'')
           (OnUnsubscribe NoopDone),
         Post ''http://localhost:3000//unsubscribe''
           (UnsubscribeBody ''test2'' ''http://localhost:3001/spidymq/test2'')
           (OnUnsubscribe NoopDone),
         Done (UserDone 4) None (Some True)])"
    by (simp add: disconnect_def for_in_keys_def inherited_keys_def unsubscribeChannel_Some
        request_post_def delete_own_def or_noop_def e)
  show ?thesis using t h1 h2 h4 d
    by (simp add: e or_noop_def isConnected_def)
qed

subsection \<open>C7: dispatch of an inbound message while connected\<close>

lemma dispatch_plain:
  assumes "connected c" and "plain_table c"
  shows "channel_of (url req) = rev (takeWhile (\<lambda>x. x \<noteq> CHR ''/'') (rev (url req)))
     \<and> (map_of (subscribers c) (channel_of (url req)) = None \<longrightarrow>
          handleMessage env req res c =
            (None, res\<lparr>statusCode := 400, end_calls := Suc (end_calls res)\<rparr>,
             [] :: ('f, 'c, 'm) effect list))
     \<and> (\<forall>f. map_of (subscribers c) (channel_of (url req)) = Some f \<longrightarrow>
          handleMessage env req res c =
            (None, res, [Notify f (body req)] :: ('f, 'c, 'm) effect list))"
  using assms
  by (simp add: channel_of_trailing[symmetric] handleMessage_def call_hasOwnProperty_def
      has_own_def plain_table_def call_member_def res_end_def)

text \<open>
  Claim C7 says that, while connected, a message whose channel is a key of the routing
  table invokes exactly the callback stored under that key, with the request's body.
  \<^verbatim>\<open>_handleMessage\<close> tests membership with \<^verbatim>\<open>this._subscribers.hasOwnProperty(channel)\<close>,
  which is the callback of the channel \<^verbatim>\<open>hasOwnProperty\<close> when that channel is subscribed.
  With \<^verbatim>\<open>hasOwnProperty\<close> (callback 5) and \<^verbatim>\<open>test\<close> (callback 7) subscribed, a message for
  \<^verbatim>\<open>/spidymq/test\<close> calls callback 5 with the channel name, takes the \<^verbatim>\<open>undefined\<close> it
  returns for ``not subscribed'', answers with status 400 and never invokes callback 7.
  (On a table that still behaves as a dictionary the claim holds: \<open>dispatch_plain\<close>.)
\<close>

theorem C7_subscribed_channel_not_dispatched:
  "Connection ''http://localhost:3000/'' (Some test_config) = Inr fresh_conn
   \<and> shadowed_conn = run test_env shadow_scenario fresh_conn
   \<and> connected shadowed_conn
   \<and> channel_of (url (test_message ''/spidymq/test'')) = ''test''
   \<and> map_of (subscribers shadowed_conn) ''test'' = Some 7
   \<and> handleMessage test_env (test_message ''/spidymq/test'') test_res shadowed_conn =
       (None, \<lparr> statusCode = 400, end_calls = 1 \<rparr>,
        ([Call 5 ''test''] :: (nat, nat, string) effect list))"
  by (simp add: fresh_conn_constructed shadow_scenario_run[symmetric] handleMessage_def
      call_hasOwnProperty_def channel_of_trailing test_message_def test_res_def res_end_def)

subsection \<open>C8: connect and disconnect toggle the flag\<close>

text \<open>
  Claim C8: a freshly constructed connection is not connected; \<^verbatim>\<open>connect\<close> sets the flag
  and reports \<open>(null, true)\<close> to its callback; \<^verbatim>\<open>disconnect\<close> on the connected connection
  clears the flag again; a second \<^verbatim>\<open>connect\<close> on the connected connection throws
  ``Connection already established'' and leaves it connected; \<^verbatim>\<open>disconnect\<close> on the
  fresh connection throws ``Connection already disconnected'' and leaves it disconnected.
  This holds whatever the surroundings.
\<close>

theorem C8_connect_disconnect_toggle:
  assumes "Connection u cfg = Inr c0"
  shows "\<not> isConnected c0
     \<and> (connect d1 c0 :: ('f, 'c, 'm) result) =
         (None, c0\<lparr>connected := True\<rparr>, [Done (or_noop d1) None (Some True)])
     \<and> isConnected (c0\<lparr>connected := True\<rparr>)
     \<and> (disconnect env d2 (c0\<lparr>connected := True\<rparr>) :: ('f, 'c, 'm) result) =
         (None, c0, [Done (or_noop d2) None (Some True)])
     \<and> \<not> isConnected c0
     \<and> (connect d3 (c0\<lparr>connected := True\<rparr>) :: ('f, 'c, 'm) result) =
         (Some (Error ''Connection already established''), c0\<lparr>connected := True\<rparr>, [])
     \<and> (disconnect env d4 c0 :: ('f, 'c, 'm) result) =
         (Some (Error ''Connection already disconnected''), c0, [])"
proof -
  have s: "subscribers c0 = []" and p: "subscribers_proto c0 = None" and n: "\<not> connected c0"
    using Connection_Inr[OF assms] by simp_all
  have "c0\<lparr>connected := True, connected := False\<rparr> = c0" using n by simp
  then show ?thesis using s p n
    by (simp add: isConnected_def connect_def disconnect_def throw_def for_in_keys_def
        inherited_keys_def)
qed

theorem C8_connect_disconnect_toggle_witness:
  "Connection ''http://localhost:3000/'' (Some test_config) = Inr fresh_conn
   \<and> isConnected fresh_conn = False
   \<and> (connect None fresh_conn :: (nat, nat, string) result) =
       (None, fresh_conn\<lparr>connected := True\<rparr>, [Done NoopDone None (Some True)])
   \<and> isConnected (fresh_conn\<lparr>connected := True\<rparr>)
   \<and> (disconnect test_env None (fresh_conn\<lparr>connected := True\<rparr>) :: (nat, nat, string) result) =
       (None, fresh_conn, [Done NoopDone None (Some True)])
   \<and> (connect None (fresh_conn\<lparr>connected := True\<rparr>) :: (nat, nat, string) result) =
       (Some (Error ''Connection already established''), fresh_conn\<lparr>connected := True\<rparr>, [])
   \<and> (disconnect test_env None fresh_conn :: (nat, nat, string) result) =
       (Some (Error ''Connection already disconnected''), fresh_conn, [])"
proof -
  have h: "Connection ''http://localhost:3000/'' (Some test_config) = Inr fresh_conn"
    by (rule fresh_conn_constructed)
  note t = C8_connect_disconnect_toggle[where ?'c = nat and ?'m = string, OF h,
      of None test_env None None None]
  show ?thesis using t h by (simp add: or_noop_def)
qed

subsection \<open>C9: subscribing twice to one channel\<close>

lemma already_subscribed_plain:
  assumes "Connection u cfg = Inr c0" and "c = run env (evs :: ('f, 'c, 'm) event list) c0"
    and "connected c" and "plain_table c" and "map_of (subscribers c) n = Some f0"
  shows "(subscribeChannel env (Some n) (Some f) dn c :: ('f, 'c, 'm) result) =
           (Some (Error ''Already subscribed to this channel''), c, [])"
proof -
  have "names_ok c" using assms(1,2) names_ok_reachable by blast
  then have "[] \<notin> fst ` set (subscribers c)" by (simp add: names_ok_def)
  moreover have "n \<in> fst ` set (subscribers c)"
    using assms(5) by (metis map_of_SomeD fst_conv image_eqI)
  ultimately have "n \<noteq> []" by metis
  then show ?thesis using assms(3,4,5)
    by (simp add: subscribeChannel_def falsy_def call_hasOwnProperty_def has_own_def
        plain_table_def)
qed

text \<open>
  Claim C9 says that a second \<^verbatim>\<open>subscribeChannel\<close> for a name that is in the routing table
  fails with the already-subscribed error, that its callback is never invoked and that
  the existing entry is left unchanged; the source says so too: ``If we're already
  subscribed to this channel, throw an exception''. The test it makes is
  \<^verbatim>\<open>this._subscribers.hasOwnProperty(channelName)\<close>, which is the callback of the channel
  \<^verbatim>\<open>hasOwnProperty\<close> when that channel is subscribed. With \<^verbatim>\<open>hasOwnProperty\<close> (callback 5)
  and \<^verbatim>\<open>test\<close> (callback 7) subscribed, a second subscription to \<^verbatim>\<open>test\<close> calls callback 5
  with the name, throws nothing, replaces callback 7 by the new callback and posts a
  second subscribe request, whose reply will invoke the second completion callback. (On a
  table that still behaves as a dictionary the claim holds: \<open>already_subscribed_plain\<close>.)
\<close>

theorem C9_second_subscription_accepted:
  "Connection ''http://localhost:3000/'' (Some test_config) = Inr fresh_conn
   \<and> shadowed_conn = run test_env shadow_scenario fresh_conn
   \<and> connected shadowed_conn
   \<and> map_of (subscribers shadowed_conn) ''test'' = Some 7
   \<and> (subscribeChannel test_env (Some ''test'') (Some 8) (Some 3) shadowed_conn
        :: (nat, nat, string) result) =
       (None, shadowed_conn\<lparr>subscribers := [(''hasOwnProperty'', 5), (''test'', 8)]\<rparr>,
        [Call 5 ''test'',
         Post ''http://localhost:3000//subscribe''
           (SubscribeBody ''test'' ''http://localhost:3001/spidymq/test'')
           (OnSubscribe ''test'' (UserDone 3))])
   \<and> (deliver (OnSubscribe ''test'' (UserDone 3)) (Status 200)
         (shadowed_conn\<lparr>subscribers := [(''hasOwnProperty'', 5), (''test'', 8)]\<rparr>)
        :: (nat, nat, string) result) =
       (None, shadowed_conn\<lparr>subscribers := [(''hasOwnProperty'', 5), (''test'', 8)]\<rparr>,
        [Done (UserDone 3) None (Some True)])"
  by (simp add: fresh_conn_constructed shadow_scenario_run[symmetric]
      subscribeChannel_def falsy_def call_hasOwnProperty_def has_own_def assign_def
      request_post_def or_noop_def deliver_def handleResponse_def)

subsection \<open>C10: a disconnected connection has an empty routing table\<close>



end
